theory Spec2Isabelle
  imports Complex_Main
begin

section \<open>PayID resolution middleware (src/middlewares/payIds.ts)\<close>

text \<open>
  The middleware \<open>getPaymentInfo\<close> turns a request (host name, URL and the list of media
  types returned by \<open>req.accepts()\<close>) into either a call of \<open>next()\<close> with the payment
  information stored on the response, or a call of \<open>handleHttpError\<close>. Its helper
  \<open>getPaymentInfoForAcceptTypes\<close> reads the record store and delegates the choice of a
  record to \<open>getPreferredPaymentInfo\<close>.

  The functions imported from other modules (\<open>urlToPayId\<close>, \<open>parseAcceptMediaType\<close>,
  \<open>getPreferredPaymentInfo\<close>) and the method \<open>res.set\<close> of the web framework are
  parameters of the model, collected in the record \<open>Collaborators\<close>; a thrown
  \<open>Error\<close> is the left summand of a sum type. The
  \<open>await\<close>s are sequential, so \<open>async\<close> functions are modelled as ordinary functions
  that thread the state of the record store.
\<close>

subsection \<open>Data\<close>

text \<open>A JavaScript \<open>Error\<close> object; only its \<open>message\<close> is read (line 75).\<close>

datatype Error = Error (message: string)

text \<open>
  Modelled from the spec: the interface \<open>AcceptMediaType\<close> of utils/acceptHeader is
  imported but not part of the source file. Section 3 of the specification lists its four
  fields; \<open>environment\<close> is optional (\<open>None\<close> is JavaScript's \<open>undefined\<close>). The
  middleware reads \<open>mediaType\<close>, \<open>paymentNetwork\<close> and \<open>environment\<close>.
\<close>

record AcceptMediaType =
  mediaType :: string
  paymentNetwork :: string
  environment :: "string option"
  quality :: real

text \<open>
  Modelled from the spec: the interfaces \<open>CryptoAddressDetails\<close> and
  \<open>AchAddressDetails\<close> of types/publicAPI are imported but not part of the source file.
  Section 3 of the specification describes the details of a record as an opaque payload
  in one of two mutually exclusive variants; the payload is a string here. In the source
  the union is untagged and the casts of lines 138 and 143 do nothing at run time, so a
  value keeps its variant whatever it is cast to.
\<close>

datatype AddressDetails = CryptoAddressDetails string | AchAddressDetails string

text \<open>The enum \<open>AddressDetailType\<close> with the two members the middleware uses.\<close>

datatype AddressDetailType = CryptoAddress | AchAddress

text \<open>
  Modelled from the spec: the discriminator \<open>detailsKind\<close> of an address record
  (section 3), which is the variant its details are in. The source has no such field.
\<close>

fun detailsKind :: "AddressDetails \<Rightarrow> AddressDetailType" where
  "detailsKind (CryptoAddressDetails _) = CryptoAddress"
| "detailsKind (AchAddressDetails _) = AchAddress"

text \<open>
  Modelled from the spec: the interface \<open>AddressInformation\<close> of types/database is
  imported but not part of the source file. The middleware reads \<open>payment_network\<close> and
  \<open>details\<close>; the environment of a record is from section 3 of the specification and
  is optional here, since a network such as ACH has none.
\<close>

record AddressInformation =
  payment_network :: string
  environment :: "string option"
  details :: AddressDetails

text \<open>The two fields of \<open>PaymentInformation\<close> that the middleware fills in (lines 136-145).\<close>

record PaymentInformation =
  addressDetailType :: AddressDetailType
  addressDetails :: AddressDetails

text \<open>The result type of \<open>getPaymentInfoForAcceptTypes\<close> (lines 34-37); \<open>undefined\<close> is \<open>None\<close>.\<close>

record PreferredPaymentInfo =
  acceptType :: AcceptMediaType
  paymentInformation :: AddressInformation

text \<open>
  The request: \<open>req.hostname\<close>, \<open>req.url\<close>, and the value of \<open>req.accepts()\<close>, the
  media types of the Accept header sorted by preference (lines 78-81).
\<close>

record Request =
  hostname :: string
  url :: string
  accepts :: "string list"

text \<open>
  The response: its headers, which only \<open>res.set\<close> writes, and \<open>res.locals\<close>, an
  object whose properties hold either the PayID string or a payment-information object.
\<close>

datatype LocalValue = PayIdValue string | PaymentInformationValue PaymentInformation

record Response =
  headers :: "string \<rightharpoonup> string"
  locals :: "string \<rightharpoonup> LocalValue"

text \<open>
  Modelled from the spec: the record store behind data-access/payIds is not part of the
  source file. By section 6 of the specification it maps an identifier to the sequence of
  its address records, the empty sequence when the identifier is unknown; \<open>rows\<close> is
  that mapping and is arbitrary. \<open>lookups\<close> is the log of the identifiers the store was
  asked for, so that the number of fetches is observable.
\<close>

record Database =
  rows :: "string \<Rightarrow> AddressInformation list"
  lookups :: "string list"

text \<open>
  Modelled from the spec: \<open>getAllPaymentInfoFromDatabase\<close> of data-access/payIds is
  imported but not part of the source file. A fetch returns all records the store holds
  for the identifier (section 6) and is entered in the log.
\<close>

definition getAllPaymentInfoFromDatabase ::
    "string \<Rightarrow> Database \<Rightarrow> AddressInformation list \<times> Database" where
  "getAllPaymentInfoFromDatabase payId db =
     (rows db payId, db\<lparr>lookups := lookups db @ [payId]\<rparr>)"

text \<open>
  Modelled from the spec: the enum \<open>HttpStatus\<close> of types/httpStatus is imported but
  not part of the source file; section 6 of the specification maps the failures of the
  input to the status 400, which line 104 of the source writes as a literal.
\<close>

definition HttpStatus_BadRequest :: nat where
  "HttpStatus_BadRequest = 400"

text \<open>
  Modelled from the spec: \<open>HttpStatus.NotFound\<close>, of the same enum; section 6 of the
  specification maps a not-found outcome to the status 404.
\<close>

definition HttpStatus_NotFound :: nat where
  "HttpStatus_NotFound = 404"

text \<open>
  The imported functions that the middleware calls, and \<open>res.set\<close> (line 133), a method
  of the framework's response object: \<open>res_set c field value\<close> is what a call
  \<open>res.set(field, value)\<close> makes of the headers. Which name the framework stores the
  header under and whether it stores the value as given is the framework's rule and is not
  fixed here.
\<close>

record Collaborators =
  urlToPayId :: "string \<Rightarrow> Error + string"
  parseAcceptMediaType :: "string \<Rightarrow> Error + AcceptMediaType"
  getPreferredPaymentInfo ::
    "AddressInformation list \<Rightarrow> AcceptMediaType list \<Rightarrow> PreferredPaymentInfo option"
  res_set :: "string \<Rightarrow> string \<Rightarrow> (string \<rightharpoonup> string) \<Rightarrow> (string \<rightharpoonup> string)"

text \<open>
  How the middleware ends: \<open>return next()\<close> with the response as it is then, or
  \<open>return handleHttpError(errorCode, msg, res, err)\<close> with the arguments of that call.
  What \<open>handleHttpError\<close> (middlewares/errors) does with them is outside the source file.
\<close>

datatype Outcome =
    Next Response
  | HandleHttpError nat string Response "Error option"

subsection \<open>getPaymentInfoForAcceptTypes (lines 30-47)\<close>

definition getPaymentInfoForAcceptTypes ::
    "Collaborators \<Rightarrow> string \<Rightarrow> AcceptMediaType list \<Rightarrow> Database
      \<Rightarrow> PreferredPaymentInfo option \<times> Database" where
  "getPaymentInfoForAcceptTypes c payId sortedAcceptTypes db =
     (if length sortedAcceptTypes = 0 then (None, db)
      else
        (let (allPaymentInformation, db') = getAllPaymentInfoFromDatabase payId db
         in (getPreferredPaymentInfo c allPaymentInformation sortedAcceptTypes, db')))"

subsection \<open>getPaymentInfo (lines 57-154)\<close>

text \<open>
  \<open>acceptHeaderTypes.map((type) => parseAcceptMediaType(type))\<close> inside \<open>try\<close>
  (lines 97-100): the tokens are parsed from left to right and the first exception
  leaves the \<open>map\<close>.
\<close>

fun mapOrThrow :: "('a \<Rightarrow> Error + 'b) \<Rightarrow> 'a list \<Rightarrow> Error + 'b list" where
  "mapOrThrow f [] = Inr []"
| "mapOrThrow f (x # xs) =
     (case f x of
        Inl e \<Rightarrow> Inl e
      | Inr y \<Rightarrow> (case mapOrThrow f xs of Inl e \<Rightarrow> Inl e | Inr ys \<Rightarrow> Inr (y # ys)))"

text \<open>The message of lines 86-91, a template literal that spans six lines.\<close>

definition missingAcceptHeaderMessage :: string where
  \<open>missingAcceptHeaderMessage =
     ''Missing Accept header. Must have an Accept header of the form "application/{payment_network}(-{environment})+json".\<newline>'' @
     ''      Examples:\<newline>'' @
     ''      - 'Accept: application/xrpl-mainnet+json'\<newline>'' @
     ''      - 'Accept: application/btc-testnet+json'\<newline>'' @
     ''      - 'Accept: application/ach+json'\<newline>'' @
     ''      ''\<close>

text \<open>The message of lines 105-110.\<close>

definition invalidAcceptHeaderMessage :: string where
  \<open>invalidAcceptHeaderMessage =
     ''Invalid Accept header. Must be of the form "application/{payment_network}(-{environment})+json".\<newline>'' @
     ''      Examples:\<newline>'' @
     ''      - 'Accept: application/xrpl-mainnet+json'\<newline>'' @
     ''      - 'Accept: application/btc-testnet+json'\<newline>'' @
     ''      - 'Accept: application/ach+json'\<newline>'' @
     ''      ''\<close>

text \<open>The message of line 121.\<close>

definition notFoundMessage :: "string \<Rightarrow> string" where
  "notFoundMessage payId = ''Payment information for '' @ payId @ '' could not be found.''"

text \<open>
  The message of line 125. A template literal renders an \<open>environment\<close> that is
  \<open>undefined\<close> as the text \<open>undefined\<close>.
\<close>

definition detailedNotFoundMessage :: "string \<Rightarrow> AcceptMediaType \<Rightarrow> string" where
  "detailedNotFoundMessage payId a =
     ''Payment information for '' @ payId @ '' in '' @ paymentNetwork a @ '' on '' @
     (case AcceptMediaType.environment a of None \<Rightarrow> ''undefined'' | Some e \<Rightarrow> e) @
     '' could not be found.''"

text \<open>
  The response object of lines 136-145: the crypto-address shape unless the payment
  network of the record is the string \<open>ACH\<close>. The details are passed on as they are.
\<close>

definition shapeResponse :: "AddressInformation \<Rightarrow> PaymentInformation" where
  "shapeResponse info =
     (if payment_network info = ''ACH''
      then \<lparr>addressDetailType = AchAddress, addressDetails = details info\<rparr>
      else \<lparr>addressDetailType = CryptoAddress, addressDetails = details info\<rparr>)"

text \<open>The URL of line 70.\<close>

definition payIdUrl :: "Request \<Rightarrow> string" where
  "payIdUrl req = ''https://'' @ hostname req @ url req"

definition getPaymentInfo ::
    "Collaborators \<Rightarrow> Request \<Rightarrow> Response \<Rightarrow> Database \<Rightarrow> Outcome \<times> Database" where
  "getPaymentInfo c req res db =
     (case urlToPayId c (payIdUrl req) of
        Inl err \<Rightarrow> (HandleHttpError HttpStatus_BadRequest (message err) res (Some err), db)
      | Inr payId \<Rightarrow>
          (let acceptHeaderTypes = accepts req in
           if length acceptHeaderTypes = 0
           then (HandleHttpError HttpStatus_BadRequest missingAcceptHeaderMessage res None, db)
           else
             (case mapOrThrow (parseAcceptMediaType c) acceptHeaderTypes of
                Inl error \<Rightarrow> (HandleHttpError 400 invalidAcceptHeaderMessage res None, db)
              | Inr parsedAcceptTypes \<Rightarrow>
                  (let (result, db') = getPaymentInfoForAcceptTypes c payId parsedAcceptTypes db in
                   case result of
                     None \<Rightarrow>
                       (let message =
                          (if length parsedAcceptTypes = 1
                           then detailedNotFoundMessage payId (parsedAcceptTypes ! 0)
                           else notFoundMessage payId)
                        in (HandleHttpError HttpStatus_NotFound message res None, db'))
                   | Some r \<Rightarrow>
                       (let res1 = res\<lparr>headers :=
                              res_set c ''Content-Type'' (mediaType (acceptType r)) (headers res)\<rparr>;
                            response = shapeResponse (paymentInformation r);
                            res2 = res1\<lparr>locals := (locals res1)
                              (''payId'' \<mapsto> PayIdValue payId,
                               ''paymentInformation'' \<mapsto> PaymentInformationValue response,
                               ''response'' \<mapsto> PaymentInformationValue response)\<rparr>
                        in (Next res2, db'))))))"

subsection \<open>The record matcher\<close>

text \<open>
  Modelled from the spec: \<open>getPreferredPaymentInfo\<close> of utils/acceptHeader is imported
  but not part of the source file. Section 4.3 of the specification: a preference matches
  a record whose payment network is exactly its own and whose environment is exactly its
  own, or any record of that network when the preference has no environment (the
  wildcard).
\<close>

definition matchesPreference :: "AcceptMediaType \<Rightarrow> AddressInformation \<Rightarrow> bool" where
  "matchesPreference p r \<longleftrightarrow>
     payment_network r = paymentNetwork p \<and>
     (AcceptMediaType.environment p = None \<or>
      AddressInformation.environment r = AcceptMediaType.environment p)"

text \<open>
  Modelled from the spec: the matcher of section 4.3 goes through the ranked preferences
  in order, scans the records for the first one that the preference matches, and returns
  at the first preference that has a match; when no preference matches any record there
  is no result.
\<close>

fun getPreferredPaymentInfo_spec ::
    "AddressInformation list \<Rightarrow> AcceptMediaType list \<Rightarrow> PreferredPaymentInfo option" where
  "getPreferredPaymentInfo_spec records [] = None"
| "getPreferredPaymentInfo_spec records (p # ps) =
     (case find (matchesPreference p) records of
        Some r \<Rightarrow> Some \<lparr>acceptType = p, paymentInformation = r\<rparr>
      | None \<Rightarrow> getPreferredPaymentInfo_spec records ps)"

subsection \<open>Sample collaborators and requests\<close>

text \<open>
  A small instance on which the middleware can be evaluated: one hosted URL that
  normalises to a PayID, a parser that knows four media types and rejects every other
  token, the matcher of section 4.3, and the header rule of Express 4.
\<close>

definition sample_urlToPayId :: "string \<Rightarrow> Error + string" where
  "sample_urlToPayId u =
     (if u = ''https://example.com/alice'' then Inr ''alice$example.com''
      else Inl (Error ''Bad input. The URL is not a PayID URL.''))"

definition xrplMainnet :: AcceptMediaType where
  "xrplMainnet = \<lparr>mediaType = ''application/xrpl-mainnet+json'', paymentNetwork = ''xrpl'',
     environment = Some ''mainnet'', quality = 1\<rparr>"

definition xrplTestnet :: AcceptMediaType where
  "xrplTestnet = \<lparr>mediaType = ''application/xrpl-testnet+json'', paymentNetwork = ''xrpl'',
     environment = Some ''testnet'', quality = 1\<rparr>"

definition btcMainnet :: AcceptMediaType where
  "btcMainnet = \<lparr>mediaType = ''application/btc-mainnet+json'', paymentNetwork = ''btc'',
     environment = Some ''mainnet'', quality = 1\<rparr>"

definition achAny :: AcceptMediaType where
  "achAny = \<lparr>mediaType = ''application/ach+json'', paymentNetwork = ''ach'',
     environment = None, quality = 1\<rparr>"

definition sample_parseAcceptMediaType :: "string \<Rightarrow> Error + AcceptMediaType" where
  "sample_parseAcceptMediaType t =
     (if t = ''application/xrpl-mainnet+json'' then Inr xrplMainnet
      else if t = ''application/xrpl-testnet+json'' then Inr xrplTestnet
      else if t = ''application/btc-mainnet+json'' then Inr btcMainnet
      else if t = ''application/ach+json'' then Inr achAny
      else Inl (Error ''Invalid Accept media type''))"

text \<open>
  An instance of \<open>res.set\<close> after the rule of Express 4 (lib/response.js, with the
  \<open>charsets.lookup\<close> of mime 1): header names are case-insensitive, so a header is
  kept under its name in lower case; a value for \<open>Content-Type\<close> that has no
  \<open>charset\<close> parameter and whose media type starts with \<open>text/\<close>,
  \<open>application/javascript\<close> or \<open>application/json\<close> gets the suffix
  \<open>; charset=utf-8\<close>, every other value is stored as given.
\<close>

definition toLowerCase :: "string \<Rightarrow> string" where
  "toLowerCase s =
     map (\<lambda>c. case map_of (zip ''ABCDEFGHIJKLMNOPQRSTUVWXYZ'' ''abcdefghijklmnopqrstuvwxyz'') c of
                 Some l \<Rightarrow> l
               | None \<Rightarrow> c) s"

definition skipWhitespace :: "string \<Rightarrow> string" where
  "skipWhitespace s =
     dropWhile (\<lambda>c. c \<in> set [CHR '' '', CHR 0x09, CHR 0x0A, CHR 0x0B, CHR 0x0C, CHR 0x0D]) s"

text \<open>The regular expression \<open>/;\s*charset\s*=/\<close>, tried at the head of the string.\<close>

definition charsetParameterHere :: "string \<Rightarrow> bool" where
  "charsetParameterHere s =
     (case s of
        [] \<Rightarrow> False
      | c # r \<Rightarrow>
          c = CHR '';'' \<and> take 7 (skipWhitespace r) = ''charset'' \<and>
          take 1 (skipWhitespace (drop 7 (skipWhitespace r))) = ''='')"

fun hasCharsetParameter :: "string \<Rightarrow> bool" where
  "hasCharsetParameter [] = False"
| "hasCharsetParameter (c # r) =
     (charsetParameterHere (c # r) \<or> hasCharsetParameter r)"

text \<open>\<open>mime.charsets.lookup\<close>: the regular expression \<open>/^text\/|^application\/(javascript|json)/\<close>.\<close>

definition charsetKnown :: "string \<Rightarrow> bool" where
  "charsetKnown mimeType =
     (take 5 mimeType = ''text/'' \<or>
      take 22 mimeType = ''application/javascript'' \<or>
      take 16 mimeType = ''application/json'')"

definition expressSet :: "string \<Rightarrow> string \<Rightarrow> (string \<rightharpoonup> string) \<Rightarrow> (string \<rightharpoonup> string)" where
  "expressSet field val hs =
     (let v =
        (if toLowerCase field = ''content-type'' \<and> \<not> hasCharsetParameter val \<and>
            charsetKnown (takeWhile (\<lambda>c. c \<noteq> CHR '';'') val)
         then val @ ''; charset=utf-8'' else val)
      in hs(toLowerCase field \<mapsto> v))"

definition sample :: Collaborators where
  "sample = \<lparr>urlToPayId = sample_urlToPayId,
     parseAcceptMediaType = sample_parseAcceptMediaType,
     getPreferredPaymentInfo = getPreferredPaymentInfo_spec,
     res_set = expressSet\<rparr>"

definition sampleRequest :: "string list \<Rightarrow> Request" where
  "sampleRequest tokens = \<lparr>hostname = ''example.com'', url = ''/alice'', accepts = tokens\<rparr>"

definition emptyResponse :: Response where
  "emptyResponse = \<lparr>headers = Map.empty, locals = Map.empty\<rparr>"

text \<open>A store that holds the given records for the PayID of the sample URL and nothing else.\<close>

definition sampleDatabase :: "AddressInformation list \<Rightarrow> Database" where
  "sampleDatabase records =
     \<lparr>rows = (\<lambda>payId. if payId = ''alice$example.com'' then records else []), lookups = []\<rparr>"

definition xrplTestnetRecord :: AddressInformation where
  "xrplTestnetRecord = \<lparr>payment_network = ''xrpl'', environment = Some ''testnet'',
     details = CryptoAddressDetails ''rTestnetAddress''\<rparr>"

definition achRecord :: AddressInformation where
  "achRecord = \<lparr>payment_network = ''ach'', environment = None,
     details = AchAddressDetails ''account 000123456789, routing 123456789''\<rparr>"

text \<open>A record of the network \<open>xrpl\<close> whose details are in the ACH variant.\<close>

definition mixedRecord :: AddressInformation where
  "mixedRecord = \<lparr>payment_network = ''xrpl'', environment = Some ''testnet'',
     details = AchAddressDetails ''account 000123456789, routing 123456789''\<rparr>"

section \<open>Properties\<close>

subsection \<open>Auxiliary facts\<close>

text \<open>
  \<open>mapOrThrow\<close> keeps the length of the list, throws as soon as one element
  throws, and otherwise agrees with \<open>map\<close>.
\<close>

lemma mapOrThrow_length: "mapOrThrow f xs = Inr ys \<Longrightarrow> length ys = length xs"
  by (induction xs arbitrary: ys) (auto split: sum.splits)

lemma mapOrThrow_throws:
  "x \<in> set xs \<Longrightarrow> f x = Inl e \<Longrightarrow> \<exists>e'. mapOrThrow f xs = Inl e'"
  by (induction xs) (auto split: sum.splits)

lemma mapOrThrow_map: "mapOrThrow f xs = Inr ys \<Longrightarrow> map f xs = map Inr ys"
  by (induction xs arbitrary: ys) (auto split: sum.splits)

lemma status_distinct: "HttpStatus_BadRequest \<noteq> HttpStatus_NotFound" "400 \<noteq> HttpStatus_NotFound"
  by (simp_all add: HttpStatus_BadRequest_def HttpStatus_NotFound_def)

lemma messages_distinct: "missingAcceptHeaderMessage \<noteq> invalidAcceptHeaderMessage"
  by (simp add: missingAcceptHeaderMessage_def invalidAcceptHeaderMessage_def)

lemma getPaymentInfo_invalid_identifier:
  "urlToPayId c (payIdUrl req) = Inl err \<Longrightarrow>
   getPaymentInfo c req res db =
     (HandleHttpError HttpStatus_BadRequest (message err) res (Some err), db)"
  by (simp add: getPaymentInfo_def)

lemma getPaymentInfo_missing:
  "urlToPayId c (payIdUrl req) = Inr payId \<Longrightarrow> accepts req = [] \<Longrightarrow>
   getPaymentInfo c req res db =
     (HandleHttpError HttpStatus_BadRequest missingAcceptHeaderMessage res None, db)"
  by (simp add: getPaymentInfo_def)

lemma getPaymentInfo_invalid:
  "urlToPayId c (payIdUrl req) = Inr payId \<Longrightarrow> accepts req \<noteq> [] \<Longrightarrow>
   mapOrThrow (parseAcceptMediaType c) (accepts req) = Inl e \<Longrightarrow>
   getPaymentInfo c req res db =
     (HandleHttpError 400 invalidAcceptHeaderMessage res None, db)"
  by (simp add: getPaymentInfo_def)

lemma getPaymentInfo_not_found:
  "urlToPayId c (payIdUrl req) = Inr payId \<Longrightarrow> accepts req \<noteq> [] \<Longrightarrow>
   mapOrThrow (parseAcceptMediaType c) (accepts req) = Inr prefs \<Longrightarrow>
   getPreferredPaymentInfo c (rows db payId) prefs = None \<Longrightarrow>
   getPaymentInfo c req res db =
     (HandleHttpError HttpStatus_NotFound
        (if length prefs = 1 then detailedNotFoundMessage payId (prefs ! 0)
         else notFoundMessage payId) res None,
      db\<lparr>lookups := lookups db @ [payId]\<rparr>)"
  by (frule mapOrThrow_length)
     (simp add: getPaymentInfo_def getPaymentInfoForAcceptTypes_def
        getAllPaymentInfoFromDatabase_def)

lemma getPaymentInfo_found:
  "urlToPayId c (payIdUrl req) = Inr payId \<Longrightarrow> accepts req \<noteq> [] \<Longrightarrow>
   mapOrThrow (parseAcceptMediaType c) (accepts req) = Inr prefs \<Longrightarrow>
   getPreferredPaymentInfo c (rows db payId) prefs = Some r \<Longrightarrow>
   getPaymentInfo c req res db =
     (Next (res\<lparr>headers := res_set c ''Content-Type'' (mediaType (acceptType r)) (headers res),
                locals := (locals res)
                  (''payId'' \<mapsto> PayIdValue payId,
                   ''paymentInformation'' \<mapsto>
                      PaymentInformationValue (shapeResponse (paymentInformation r)),
                   ''response'' \<mapsto>
                      PaymentInformationValue (shapeResponse (paymentInformation r)))\<rparr>),
      db\<lparr>lookups := lookups db @ [payId]\<rparr>)"
  by (frule mapOrThrow_length)
     (simp add: getPaymentInfo_def getPaymentInfoForAcceptTypes_def
        getAllPaymentInfoFromDatabase_def Let_def)

text \<open>The five ways through the middleware.\<close>

lemma getPaymentInfo_cases:
  fixes c :: Collaborators and req :: Request and db :: Database
  obtains
    (InvalidIdentifier) err where "urlToPayId c (payIdUrl req) = Inl err"
  | (MissingAccept) payId where "urlToPayId c (payIdUrl req) = Inr payId" "accepts req = []"
  | (InvalidAccept) payId e where "urlToPayId c (payIdUrl req) = Inr payId"
      "accepts req \<noteq> []" "mapOrThrow (parseAcceptMediaType c) (accepts req) = Inl e"
  | (NotFound) payId prefs where "urlToPayId c (payIdUrl req) = Inr payId"
      "accepts req \<noteq> []" "mapOrThrow (parseAcceptMediaType c) (accepts req) = Inr prefs"
      "getPreferredPaymentInfo c (rows db payId) prefs = None"
  | (Found) payId prefs r where "urlToPayId c (payIdUrl req) = Inr payId"
      "accepts req \<noteq> []" "mapOrThrow (parseAcceptMediaType c) (accepts req) = Inr prefs"
      "getPreferredPaymentInfo c (rows db payId) prefs = Some r"
proof (cases "urlToPayId c (payIdUrl req)")
  case (Inl err)
  then show ?thesis by (rule InvalidIdentifier)
next
  case (Inr payId)
  show ?thesis
  proof (cases "accepts req = []")
    case True
    with Inr show ?thesis by (rule MissingAccept)
  next
    case False
    show ?thesis
    proof (cases "mapOrThrow (parseAcceptMediaType c) (accepts req)")
      case (Inl e)
      with Inr False show ?thesis by (rule InvalidAccept)
    next
      case prefs: (Inr prefs)
      show ?thesis
      proof (cases "getPreferredPaymentInfo c (rows db payId) prefs")
        case None
        with Inr False prefs show ?thesis by (rule NotFound)
      next
        case (Some r)
        with Inr False prefs show ?thesis by (rule Found)
      qed
    qed
  qed
qed

text \<open>
  The matcher of section 4.3: preferences without a matching record are passed over, a
  result pairs a preference with the first record it matches, and there is no result
  exactly when no preference matches any record.
\<close>

lemma spec_matcher_skip:
  "\<forall>q\<in>set higher. \<forall>r\<in>set records. \<not> matchesPreference q r \<Longrightarrow>
   getPreferredPaymentInfo_spec records (higher @ ps) = getPreferredPaymentInfo_spec records ps"
proof (induction higher)
  case Nil
  then show ?case by simp
next
  case (Cons q higher)
  then have "find (matchesPreference q) records = None"
    by (simp add: find_None_iff)
  with Cons show ?case by simp
qed

lemma spec_matcher_Some:
  "getPreferredPaymentInfo_spec records ps = Some m \<Longrightarrow>
   acceptType m \<in> set ps \<and> find (matchesPreference (acceptType m)) records = Some (paymentInformation m)"
  by (induction ps) (auto split: option.splits)

lemma find_Some_matches: "find P xs = Some x \<Longrightarrow> P x \<and> x \<in> set xs"
  by (induction xs) (auto split: if_splits)

lemma spec_matcher_None:
  "getPreferredPaymentInfo_spec records ps = None \<longleftrightarrow>
   (\<forall>p\<in>set ps. \<forall>r\<in>set records. \<not> matchesPreference p r)"
  by (induction ps) (auto simp: find_None_iff split: option.splits dest: find_Some_matches)

text \<open>
  The sample collaborators, evaluated.
\<close>

lemmas sample_defs =
  sample_def sampleRequest_def payIdUrl_def sample_urlToPayId_def
  sample_parseAcceptMediaType_def sampleDatabase_def emptyResponse_def

lemma sample_url:
  "urlToPayId sample (payIdUrl (sampleRequest tokens)) = Inr ''alice$example.com''"
  by (simp add: sample_defs)

lemma sample_rows: "rows (sampleDatabase records) ''alice$example.com'' = records"
  by (simp add: sampleDatabase_def)

lemma sample_parse_btc:
  "mapOrThrow (parseAcceptMediaType sample) (accepts (sampleRequest [''application/btc-mainnet+json''])) = Inr [btcMainnet]"
  by (simp add: sample_defs)

lemma sample_parse_two:
  "mapOrThrow (parseAcceptMediaType sample)
     (accepts (sampleRequest [''application/xrpl-mainnet+json'', ''application/xrpl-testnet+json''])) =
   Inr [xrplMainnet, xrplTestnet]"
  by (simp add: sample_defs)

lemma sample_parse_bad:
  "parseAcceptMediaType sample ''text/html'' = Inl (Error ''Invalid Accept media type'')"
  by (simp add: sample_defs)

lemma sample_match_none_empty: "getPreferredPaymentInfo sample [] prefs = None"
  by (induction prefs) (simp_all add: sample_def)

lemma sample_match_btc_ach: "getPreferredPaymentInfo sample [achRecord] [btcMainnet] = None"
  by (simp add: sample_def matchesPreference_def achRecord_def btcMainnet_def)

lemma sample_match_two:
  "getPreferredPaymentInfo sample [xrplTestnetRecord] [xrplMainnet, xrplTestnet] =
     Some \<lparr>acceptType = xrplTestnet, paymentInformation = xrplTestnetRecord\<rparr>"
  by (simp add: sample_def matchesPreference_def xrplTestnetRecord_def xrplMainnet_def xrplTestnet_def)

lemma toLowerCase_Content_Type: "toLowerCase ''Content-Type'' = ''content-type''"
  by (simp add: toLowerCase_def)

lemma sample_set_testnet:
  "res_set sample ''Content-Type'' ''application/xrpl-testnet+json'' hs =
     hs(''content-type'' \<mapsto> ''application/xrpl-testnet+json'')"
  by (simp add: sample_def expressSet_def toLowerCase_Content_Type charsetKnown_def)

text \<open>
  Under the rule of Express 4 a value whose media type starts with none of the three
  prefixes is stored as it is given, and one that starts with \<open>application/json\<close> and
  has no \<open>charset\<close> parameter is not.
\<close>

lemma expressSet_verbatim:
  "\<not> charsetKnown (takeWhile (\<lambda>c. c \<noteq> CHR '';'') val) \<Longrightarrow>
   expressSet ''Content-Type'' val hs = hs(''content-type'' \<mapsto> val)"
  by (simp add: expressSet_def toLowerCase_Content_Type)

lemma expressSet_json:
  "expressSet ''Content-Type'' ''application/json'' hs =
     hs(''content-type'' \<mapsto> ''application/json; charset=utf-8'')"
  by (simp add: expressSet_def toLowerCase_Content_Type charsetKnown_def charsetParameterHere_def)

lemma sample_accepts_nonempty: "accepts (sampleRequest (t # ts)) \<noteq> []"
  by (simp add: sampleRequest_def)

lemma sample_found_two:
  "getPaymentInfo sample
     (sampleRequest [''application/xrpl-mainnet+json'', ''application/xrpl-testnet+json''])
     emptyResponse (sampleDatabase [xrplTestnetRecord]) =
   (Next \<lparr>headers = [''content-type'' \<mapsto> ''application/xrpl-testnet+json''],
          locals = [''payId'' \<mapsto> PayIdValue ''alice$example.com'',
                    ''paymentInformation'' \<mapsto> PaymentInformationValue
                       \<lparr>addressDetailType = CryptoAddress,
                        addressDetails = CryptoAddressDetails ''rTestnetAddress''\<rparr>,
                    ''response'' \<mapsto> PaymentInformationValue
                       \<lparr>addressDetailType = CryptoAddress,
                        addressDetails = CryptoAddressDetails ''rTestnetAddress''\<rparr>]\<rparr>,
    (sampleDatabase [xrplTestnetRecord])\<lparr>lookups := [''alice$example.com'']\<rparr>)"
proof -
  have m: "getPreferredPaymentInfo sample
      (rows (sampleDatabase [xrplTestnetRecord]) ''alice$example.com'') [xrplMainnet, xrplTestnet] =
     Some \<lparr>acceptType = xrplTestnet, paymentInformation = xrplTestnetRecord\<rparr>"
    by (simp only: sample_rows sample_match_two)
  from getPaymentInfo_found [OF sample_url sample_accepts_nonempty sample_parse_two m, of emptyResponse]
  show ?thesis
    by (simp add: emptyResponse_def shapeResponse_def xrplTestnetRecord_def xrplTestnet_def
        sampleDatabase_def sample_set_testnet)
qed

lemma sample_not_found_btc:
  "getPaymentInfo sample (sampleRequest [''application/btc-mainnet+json'']) emptyResponse
     (sampleDatabase [achRecord]) =
   (HandleHttpError HttpStatus_NotFound
      ''Payment information for alice$example.com in btc on mainnet could not be found.''
      emptyResponse None,
    (sampleDatabase [achRecord])\<lparr>lookups := [''alice$example.com'']\<rparr>)"
proof -
  have m: "getPreferredPaymentInfo sample
      (rows (sampleDatabase [achRecord]) ''alice$example.com'') [btcMainnet] = None"
    by (simp only: sample_rows sample_match_btc_ach)
  from getPaymentInfo_not_found [OF sample_url sample_accepts_nonempty sample_parse_btc m, of emptyResponse]
  show ?thesis
    by (simp add: detailedNotFoundMessage_def btcMainnet_def sampleDatabase_def)
qed

lemma sample_match_two_ach:
  "getPreferredPaymentInfo sample [achRecord] [xrplMainnet, xrplTestnet] = None"
  by (simp add: sample_def matchesPreference_def achRecord_def xrplMainnet_def xrplTestnet_def)

lemma sample_not_found_two:
  "getPaymentInfo sample
     (sampleRequest [''application/xrpl-mainnet+json'', ''application/xrpl-testnet+json''])
     emptyResponse (sampleDatabase [achRecord]) =
   (HandleHttpError HttpStatus_NotFound
      ''Payment information for alice$example.com could not be found.''
      emptyResponse None,
    (sampleDatabase [achRecord])\<lparr>lookups := [''alice$example.com'']\<rparr>)"
proof -
  have m: "getPreferredPaymentInfo sample
      (rows (sampleDatabase [achRecord]) ''alice$example.com'') [xrplMainnet, xrplTestnet] = None"
    by (simp only: sample_rows sample_match_two_ach)
  from getPaymentInfo_not_found [OF sample_url sample_accepts_nonempty sample_parse_two m, of emptyResponse]
  show ?thesis
    by (simp add: notFoundMessage_def sampleDatabase_def)
qed

lemma sample_parse_testnet:
  "mapOrThrow (parseAcceptMediaType sample)
     (accepts (sampleRequest [''application/xrpl-testnet+json''])) = Inr [xrplTestnet]"
  by (simp add: sample_defs)

lemma sample_match_mixed:
  "getPreferredPaymentInfo sample [mixedRecord] [xrplTestnet] =
     Some \<lparr>acceptType = xrplTestnet, paymentInformation = mixedRecord\<rparr>"
  by (simp add: sample_def matchesPreference_def mixedRecord_def xrplTestnet_def)

subsection \<open>Fetches of the record store\<close>

text \<open>
  Claim C9. \<open>getPaymentInfoForAcceptTypes\<close> fetches from the record store exactly once,
  for the PayID it was given, when the list of accepted types is not empty: the log of
  the store grows by that one identifier and the result is what
  \<open>getPreferredPaymentInfo\<close> returns on the fetched records. When the list is empty it
  returns \<open>undefined\<close> and the store is untouched.
\<close>

theorem getPaymentInfoForAcceptTypes_fetch_once:
  "(sortedAcceptTypes \<noteq> [] \<longrightarrow>
      getPaymentInfoForAcceptTypes c payId sortedAcceptTypes db =
        (getPreferredPaymentInfo c (rows db payId) sortedAcceptTypes,
         db\<lparr>lookups := lookups db @ [payId]\<rparr>)) \<and>
   (sortedAcceptTypes = [] \<longrightarrow>
      getPaymentInfoForAcceptTypes c payId sortedAcceptTypes db = (None, db))"
proof (cases sortedAcceptTypes)
  case Nil
  then show ?thesis
    by (simp add: getPaymentInfoForAcceptTypes_def)
next
  case (Cons a as)
  then have "length sortedAcceptTypes \<noteq> 0" by simp
  then have "getPaymentInfoForAcceptTypes c payId sortedAcceptTypes db =
      (let (allPaymentInformation, db') = getAllPaymentInfoFromDatabase payId db
       in (getPreferredPaymentInfo c allPaymentInformation sortedAcceptTypes, db'))"
    by (simp add: getPaymentInfoForAcceptTypes_def)
  with Cons show ?thesis
    by (simp add: getAllPaymentInfoFromDatabase_def)
qed

theorem getPaymentInfoForAcceptTypes_fetch_once_witness:
  "[xrplTestnet] \<noteq> [] \<and>
   getPaymentInfoForAcceptTypes sample ''alice$example.com'' [xrplTestnet]
       (sampleDatabase [xrplTestnetRecord]) =
     (getPreferredPaymentInfo sample
        (rows (sampleDatabase [xrplTestnetRecord]) ''alice$example.com'') [xrplTestnet],
      (sampleDatabase [xrplTestnetRecord])
        \<lparr>lookups := lookups (sampleDatabase [xrplTestnetRecord]) @ [''alice$example.com'']\<rparr>) \<and>
   lookups (snd (getPaymentInfoForAcceptTypes sample ''alice$example.com'' [xrplTestnet]
       (sampleDatabase [xrplTestnetRecord]))) = [''alice$example.com''] \<and>
   getPaymentInfoForAcceptTypes sample ''alice$example.com'' []
       (sampleDatabase [xrplTestnetRecord]) = (None, sampleDatabase [xrplTestnetRecord])"
  using getPaymentInfoForAcceptTypes_fetch_once
      [of "[xrplTestnet]" sample "''alice$example.com''" "sampleDatabase [xrplTestnetRecord]"]
    getPaymentInfoForAcceptTypes_fetch_once
      [of "[]" sample "''alice$example.com''" "sampleDatabase [xrplTestnetRecord]"]
  by (simp add: sampleDatabase_def)

subsection \<open>The Accept header\<close>

text \<open>
  Claim C4. When the request carries no Accept token, the middleware ends in
  \<open>handleHttpError\<close> with status 400 and the missing-Accept-header message, for every
  identifier that the URL of the request normalises to. In no case is the outcome a 404,
  the record store is not read, and the outcome does not depend on the parser or on the
  matcher, which are never reached.
\<close>

theorem getPaymentInfo_empty_accept:
  assumes "accepts req = []"
  shows "(\<forall>payId. urlToPayId c (payIdUrl req) = Inr payId \<longrightarrow>
            getPaymentInfo c req res db =
              (HandleHttpError HttpStatus_BadRequest missingAcceptHeaderMessage res None, db)) \<and>
         (\<forall>msg r err. fst (getPaymentInfo c req res db) \<noteq> HandleHttpError HttpStatus_NotFound msg r err) \<and>
         snd (getPaymentInfo c req res db) = db \<and>
         (\<forall>parse matcher. getPaymentInfo
             (c\<lparr>parseAcceptMediaType := parse, getPreferredPaymentInfo := matcher\<rparr>) req res db =
           getPaymentInfo c req res db)"
  using assms status_distinct
  by (auto simp: getPaymentInfo_def split: sum.splits)

theorem getPaymentInfo_empty_accept_witness:
  "accepts (sampleRequest []) = [] \<and>
   urlToPayId sample (payIdUrl (sampleRequest [])) = Inr ''alice$example.com'' \<and>
   getPaymentInfo sample (sampleRequest []) emptyResponse (sampleDatabase [xrplTestnetRecord]) =
     (HandleHttpError HttpStatus_BadRequest missingAcceptHeaderMessage emptyResponse None,
      sampleDatabase [xrplTestnetRecord]) \<and>
   lookups (snd (getPaymentInfo sample (sampleRequest []) emptyResponse
     (sampleDatabase [xrplTestnetRecord]))) = []"
proof -
  have a: "accepts (sampleRequest []) = []"
    by (simp add: sampleRequest_def)
  from getPaymentInfo_empty_accept [OF a, of sample emptyResponse "sampleDatabase [xrplTestnetRecord]"]
    sample_url [of "[]"]
  have "getPaymentInfo sample (sampleRequest []) emptyResponse (sampleDatabase [xrplTestnetRecord]) =
     (HandleHttpError HttpStatus_BadRequest missingAcceptHeaderMessage emptyResponse None,
      sampleDatabase [xrplTestnetRecord])"
    by blast
  with a sample_url [of "[]"] show ?thesis
    by (simp add: sampleDatabase_def)
qed

text \<open>
  Claim C5. Validation of the Accept header is all or nothing: when the identifier is
  well formed and one token of the list is rejected by \<open>parseAcceptMediaType\<close>, the
  middleware ends in \<open>handleHttpError\<close> with status 400 and the invalid-Accept-header
  message, whatever the other tokens, the matcher and the record store are; the store is
  not read, so no match is attempted with the well-formed tokens.
\<close>

theorem getPaymentInfo_invalid_accept:
  assumes "urlToPayId c (payIdUrl req) = Inr payId"
    and "t \<in> set (accepts req)"
    and "parseAcceptMediaType c t = Inl e"
  shows "getPaymentInfo c req res db =
           (HandleHttpError 400 invalidAcceptHeaderMessage res None, db)"
proof -
  from assms(2) have ne: "accepts req \<noteq> []" by auto
  from mapOrThrow_throws [of t "accepts req" "parseAcceptMediaType c" e] assms(2,3)
  obtain e' where "mapOrThrow (parseAcceptMediaType c) (accepts req) = Inl e'" by blast
  with assms(1) ne show ?thesis
    by (rule getPaymentInfo_invalid)
qed

theorem getPaymentInfo_invalid_accept_witness:
  "urlToPayId sample (payIdUrl (sampleRequest [''application/xrpl-testnet+json'', ''text/html''])) =
     Inr ''alice$example.com'' \<and>
   ''text/html'' \<in> set (accepts (sampleRequest [''application/xrpl-testnet+json'', ''text/html''])) \<and>
   parseAcceptMediaType sample ''text/html'' = Inl (Error ''Invalid Accept media type'') \<and>
   parseAcceptMediaType sample ''application/xrpl-testnet+json'' = Inr xrplTestnet \<and>
   matchesPreference xrplTestnet xrplTestnetRecord \<and>
   getPaymentInfo sample (sampleRequest [''application/xrpl-testnet+json'', ''text/html''])
       emptyResponse (sampleDatabase [xrplTestnetRecord]) =
     (HandleHttpError 400 invalidAcceptHeaderMessage emptyResponse None,
      sampleDatabase [xrplTestnetRecord])"
proof -
  have t: "''text/html'' \<in> set (accepts (sampleRequest [''application/xrpl-testnet+json'', ''text/html'']))"
    by (simp add: sampleRequest_def)
  have p: "parseAcceptMediaType sample ''application/xrpl-testnet+json'' = Inr xrplTestnet"
    by (simp add: sample_defs)
  have m: "matchesPreference xrplTestnet xrplTestnetRecord"
    by (simp add: matchesPreference_def xrplTestnet_def xrplTestnetRecord_def)
  from getPaymentInfo_invalid_accept [OF sample_url t sample_parse_bad]
    sample_url t sample_parse_bad p m
  show ?thesis by simp
qed

subsection \<open>Not found\<close>

text \<open>
  Claim C6. Whenever the middleware ends in \<open>handleHttpError\<close> with
  \<open>HttpStatus.NotFound\<close>: if exactly one accepted type was supplied, the message names
  the PayID and the payment network and environment of that type; if more than one was
  supplied, the message names only the PayID.
\<close>

theorem getPaymentInfo_not_found_message:
  assumes "fst (getPaymentInfo c req res db) = HandleHttpError HttpStatus_NotFound msg r err"
  shows "\<exists>payId prefs.
           urlToPayId c (payIdUrl req) = Inr payId \<and>
           map (parseAcceptMediaType c) (accepts req) = map Inr prefs \<and>
           (length (accepts req) = 1 \<longrightarrow>
              msg = ''Payment information for '' @ payId @ '' in '' @ paymentNetwork (hd prefs) @
                    '' on '' @
                    (case AcceptMediaType.environment (hd prefs) of
                       None \<Rightarrow> ''undefined'' | Some e \<Rightarrow> e) @
                    '' could not be found.'') \<and>
           (length (accepts req) > 1 \<longrightarrow>
              msg = ''Payment information for '' @ payId @ '' could not be found.'')"
proof (cases rule: getPaymentInfo_cases [where c = c and req = req and db = db])
  case (InvalidIdentifier err)
  from getPaymentInfo_invalid_identifier [OF this, of res db] assms status_distinct
  show ?thesis by simp
next
  case (MissingAccept payId)
  from getPaymentInfo_missing [OF this, of res db] assms status_distinct
  show ?thesis by simp
next
  case (InvalidAccept payId e)
  from getPaymentInfo_invalid [OF this, of res db] assms status_distinct
  show ?thesis by simp
next
  case (NotFound payId prefs)
  from getPaymentInfo_not_found [OF this, of res] assms
  have msg: "msg = (if length prefs = 1 then detailedNotFoundMessage payId (prefs ! 0)
         else notFoundMessage payId)" by simp
  from NotFound(3) have len: "length prefs = length (accepts req)"
    by (rule mapOrThrow_length)
  from NotFound(3) have m: "map (parseAcceptMediaType c) (accepts req) = map Inr prefs"
    by (rule mapOrThrow_map)
  have "length prefs = 1 \<Longrightarrow> prefs ! 0 = hd prefs"
    by (cases prefs) simp_all
  with msg len m NotFound(1) show ?thesis
    by (auto simp: detailedNotFoundMessage_def notFoundMessage_def)
next
  case (Found payId prefs r')
  from getPaymentInfo_found [OF this, of res] assms
  show ?thesis by simp
qed

theorem getPaymentInfo_not_found_message_witness:
  "fst (getPaymentInfo sample (sampleRequest [''application/btc-mainnet+json'']) emptyResponse
         (sampleDatabase [achRecord])) =
     HandleHttpError HttpStatus_NotFound
       ''Payment information for alice$example.com in btc on mainnet could not be found.''
       emptyResponse None \<and>
   length (accepts (sampleRequest [''application/btc-mainnet+json''])) = 1 \<and>
   (\<exists>payId prefs.
      urlToPayId sample (payIdUrl (sampleRequest [''application/btc-mainnet+json''])) = Inr payId \<and>
      map (parseAcceptMediaType sample) (accepts (sampleRequest [''application/btc-mainnet+json''])) =
        map Inr prefs \<and>
      ''Payment information for alice$example.com in btc on mainnet could not be found.'' =
        ''Payment information for '' @ payId @ '' in '' @ paymentNetwork (hd prefs) @ '' on '' @
        (case AcceptMediaType.environment (hd prefs) of None \<Rightarrow> ''undefined'' | Some e \<Rightarrow> e) @
        '' could not be found.'') \<and>
   fst (getPaymentInfo sample
          (sampleRequest [''application/xrpl-mainnet+json'', ''application/xrpl-testnet+json''])
          emptyResponse (sampleDatabase [achRecord])) =
     HandleHttpError HttpStatus_NotFound
       ''Payment information for alice$example.com could not be found.'' emptyResponse None \<and>
   length (accepts
     (sampleRequest [''application/xrpl-mainnet+json'', ''application/xrpl-testnet+json''])) = 2"
proof -
  have one: "fst (getPaymentInfo sample (sampleRequest [''application/btc-mainnet+json''])
      emptyResponse (sampleDatabase [achRecord])) =
     HandleHttpError HttpStatus_NotFound
       ''Payment information for alice$example.com in btc on mainnet could not be found.''
       emptyResponse None"
    by (simp add: sample_not_found_btc)
  have two: "fst (getPaymentInfo sample
          (sampleRequest [''application/xrpl-mainnet+json'', ''application/xrpl-testnet+json''])
          emptyResponse (sampleDatabase [achRecord])) =
     HandleHttpError HttpStatus_NotFound
       ''Payment information for alice$example.com could not be found.'' emptyResponse None"
    by (simp add: sample_not_found_two)
  have len: "length (accepts (sampleRequest [''application/btc-mainnet+json''])) = 1"
    "length (accepts
     (sampleRequest [''application/xrpl-mainnet+json'', ''application/xrpl-testnet+json''])) = 2"
    by (simp_all add: sampleRequest_def)
  from getPaymentInfo_not_found_message [OF one] len(1)
  have "\<exists>payId prefs.
      urlToPayId sample (payIdUrl (sampleRequest [''application/btc-mainnet+json''])) = Inr payId \<and>
      map (parseAcceptMediaType sample) (accepts (sampleRequest [''application/btc-mainnet+json''])) =
        map Inr prefs \<and>
      ''Payment information for alice$example.com in btc on mainnet could not be found.'' =
        ''Payment information for '' @ payId @ '' in '' @ paymentNetwork (hd prefs) @ '' on '' @
        (case AcceptMediaType.environment (hd prefs) of None \<Rightarrow> ''undefined'' | Some e \<Rightarrow> e) @
        '' could not be found.''"
    by blast
  with one two len show ?thesis by blast
qed

text \<open>
  Claim C1, as amended. The outcome does not tell the case of no records for the
  identifier from the case of records that match no accepted type: for every well-formed
  identifier and every non-empty list of valid accepted types, if the matcher returns
  \<open>undefined\<close> on the empty record set and on a non-empty record set, the two
  resolutions end in the same call of \<open>handleHttpError\<close>, with status 404 and a
  message that depends only on the PayID and the accepted types.
\<close>

theorem not_found_outcomes_merged:
  assumes "urlToPayId c (payIdUrl req) = Inr payId"
    and "accepts req \<noteq> []"
    and "mapOrThrow (parseAcceptMediaType c) (accepts req) = Inr prefs"
    and "rows db1 payId = []"
    and "getPreferredPaymentInfo c [] prefs = None"
    and "rows db2 payId \<noteq> []"
    and "getPreferredPaymentInfo c (rows db2 payId) prefs = None"
  shows "fst (getPaymentInfo c req res db1) = fst (getPaymentInfo c req res db2) \<and>
         fst (getPaymentInfo c req res db1) =
           HandleHttpError HttpStatus_NotFound
             (if length prefs = 1 then detailedNotFoundMessage payId (prefs ! 0)
              else notFoundMessage payId) res None"
proof -
  from assms(4,5) have "getPreferredPaymentInfo c (rows db1 payId) prefs = None" by simp
  from getPaymentInfo_not_found [OF assms(1-3) this, of res]
    getPaymentInfo_not_found [OF assms(1-3) assms(7), of res]
  show ?thesis by simp
qed

theorem not_found_outcomes_merged_witness:
  "urlToPayId sample (payIdUrl (sampleRequest [''application/btc-mainnet+json''])) =
     Inr ''alice$example.com'' \<and>
   accepts (sampleRequest [''application/btc-mainnet+json'']) \<noteq> [] \<and>
   mapOrThrow (parseAcceptMediaType sample)
     (accepts (sampleRequest [''application/btc-mainnet+json''])) = Inr [btcMainnet] \<and>
   rows (sampleDatabase []) ''alice$example.com'' = [] \<and>
   getPreferredPaymentInfo sample [] [btcMainnet] = None \<and>
   rows (sampleDatabase [achRecord]) ''alice$example.com'' \<noteq> [] \<and>
   getPreferredPaymentInfo sample (rows (sampleDatabase [achRecord]) ''alice$example.com'')
     [btcMainnet] = None \<and>
   fst (getPaymentInfo sample (sampleRequest [''application/btc-mainnet+json'']) emptyResponse
          (sampleDatabase [])) =
   fst (getPaymentInfo sample (sampleRequest [''application/btc-mainnet+json'']) emptyResponse
          (sampleDatabase [achRecord]))"
proof -
  have r1: "rows (sampleDatabase []) ''alice$example.com'' = []"
    by (simp only: sample_rows)
  have r2: "rows (sampleDatabase [achRecord]) ''alice$example.com'' \<noteq> []"
    by (simp add: sample_rows)
  have m2: "getPreferredPaymentInfo sample (rows (sampleDatabase [achRecord]) ''alice$example.com'')
     [btcMainnet] = None"
    by (simp only: sample_rows sample_match_btc_ach)
  from not_found_outcomes_merged
    [OF sample_url sample_accepts_nonempty sample_parse_btc r1 sample_match_none_empty r2 m2,
     of emptyResponse]
    sample_url sample_accepts_nonempty sample_parse_btc r1 sample_match_none_empty r2 m2
  show ?thesis by blast
qed

text \<open>
  The claim C1 as stated fails: with the single accepted type btc-mainnet, the store with
  no record and the store with one ACH record give the same outcome.
\<close>

theorem not_found_outcomes_merged_counterexample:
  "rows (sampleDatabase []) ''alice$example.com'' = [] \<and>
   rows (sampleDatabase [achRecord]) ''alice$example.com'' = [achRecord] \<and>
   fst (getPaymentInfo sample (sampleRequest [''application/btc-mainnet+json'']) emptyResponse
         (sampleDatabase [])) =
     HandleHttpError 404
       ''Payment information for alice$example.com in btc on mainnet could not be found.''
       emptyResponse None \<and>
   fst (getPaymentInfo sample (sampleRequest [''application/btc-mainnet+json'']) emptyResponse
         (sampleDatabase [achRecord])) =
     HandleHttpError 404
       ''Payment information for alice$example.com in btc on mainnet could not be found.''
       emptyResponse None"
proof -
  have ne: "accepts (sampleRequest [''application/btc-mainnet+json'']) \<noteq> []"
    by (simp add: sampleRequest_def)
  have 1: "getPreferredPaymentInfo sample (rows (sampleDatabase []) ''alice$example.com'') [btcMainnet] = None"
    by (simp add: sample_rows sample_match_none_empty)
  have 2: "getPreferredPaymentInfo sample (rows (sampleDatabase [achRecord]) ''alice$example.com'') [btcMainnet] = None"
    by (simp add: sample_rows sample_match_btc_ach)
  from getPaymentInfo_not_found [OF sample_url ne sample_parse_btc 1, of emptyResponse]
    getPaymentInfo_not_found [OF sample_url ne sample_parse_btc 2, of emptyResponse]
  show ?thesis
    by (simp add: sample_rows detailedNotFoundMessage_def btcMainnet_def HttpStatus_NotFound_def)
qed

subsection \<open>Success\<close>

text \<open>
  Claim C8. Whenever the middleware calls \<open>next()\<close>, the headers of the response are
  those it received after the one call \<open>res.set('Content-Type', acceptType.mediaType)\<close>:
  the value handed to the framework for \<open>Content-Type\<close> is, verbatim, the
  \<open>mediaType\<close> of the accepted type that the matcher returned, not a value taken
  from the record, and the middleware writes no other header. This holds for every
  \<open>res.set\<close>; what the framework stores for that value is its own rule, and whenever
  it stores the value as given, under whatever name, the outgoing header of that name is
  the \<open>mediaType\<close> itself.
\<close>

theorem getPaymentInfo_content_type:
  assumes "fst (getPaymentInfo c req res db) = Next res'"
  shows "\<exists>payId prefs r.
           urlToPayId c (payIdUrl req) = Inr payId \<and>
           mapOrThrow (parseAcceptMediaType c) (accepts req) = Inr prefs \<and>
           getPreferredPaymentInfo c (rows db payId) prefs = Some r \<and>
           headers res' = res_set c ''Content-Type'' (mediaType (acceptType r)) (headers res) \<and>
           (\<forall>name.
              res_set c ''Content-Type'' (mediaType (acceptType r)) (headers res) =
                (headers res)(name \<mapsto> mediaType (acceptType r)) \<longrightarrow>
              headers res' name = Some (mediaType (acceptType r)))"
proof (cases rule: getPaymentInfo_cases [where c = c and req = req and db = db])
  case (InvalidIdentifier err)
  from getPaymentInfo_invalid_identifier [OF this, of res db] assms
  show ?thesis by simp
next
  case (MissingAccept payId)
  from getPaymentInfo_missing [OF this, of res db] assms
  show ?thesis by simp
next
  case (InvalidAccept payId e)
  from getPaymentInfo_invalid [OF this, of res db] assms
  show ?thesis by simp
next
  case (NotFound payId prefs)
  from getPaymentInfo_not_found [OF this, of res] assms
  show ?thesis by simp
next
  case (Found payId prefs r)
  from getPaymentInfo_found [OF this, of res] assms
  have h: "headers res' = res_set c ''Content-Type'' (mediaType (acceptType r)) (headers res)"
    by auto
  then have "\<forall>name.
      res_set c ''Content-Type'' (mediaType (acceptType r)) (headers res) =
        (headers res)(name \<mapsto> mediaType (acceptType r)) \<longrightarrow>
      headers res' name = Some (mediaType (acceptType r))"
    by simp
  with h Found show ?thesis by blast
qed

theorem getPaymentInfo_content_type_witness:
  "fst (getPaymentInfo sample
          (sampleRequest [''application/xrpl-mainnet+json'', ''application/xrpl-testnet+json''])
          emptyResponse (sampleDatabase [xrplTestnetRecord])) =
     Next \<lparr>headers = [''content-type'' \<mapsto> ''application/xrpl-testnet+json''],
          locals = [''payId'' \<mapsto> PayIdValue ''alice$example.com'',
                    ''paymentInformation'' \<mapsto> PaymentInformationValue
                       \<lparr>addressDetailType = CryptoAddress,
                        addressDetails = CryptoAddressDetails ''rTestnetAddress''\<rparr>,
                    ''response'' \<mapsto> PaymentInformationValue
                       \<lparr>addressDetailType = CryptoAddress,
                        addressDetails = CryptoAddressDetails ''rTestnetAddress''\<rparr>]\<rparr> \<and>
   (\<exists>payId prefs r.
      urlToPayId sample (payIdUrl
        (sampleRequest [''application/xrpl-mainnet+json'', ''application/xrpl-testnet+json''])) =
        Inr payId \<and>
      mapOrThrow (parseAcceptMediaType sample) (accepts
        (sampleRequest [''application/xrpl-mainnet+json'', ''application/xrpl-testnet+json''])) =
        Inr prefs \<and>
      getPreferredPaymentInfo sample (rows (sampleDatabase [xrplTestnetRecord]) payId) prefs =
        Some r \<and>
      [''content-type'' \<mapsto> ''application/xrpl-testnet+json''] =
        res_set sample ''Content-Type'' (mediaType (acceptType r)) (headers emptyResponse) \<and>
      mediaType (acceptType r) = ''application/xrpl-testnet+json'')"
proof -
  let ?R = "\<lparr>headers = [''content-type'' \<mapsto> ''application/xrpl-testnet+json''],
          locals = [''payId'' \<mapsto> PayIdValue ''alice$example.com'',
                    ''paymentInformation'' \<mapsto> PaymentInformationValue
                       \<lparr>addressDetailType = CryptoAddress,
                        addressDetails = CryptoAddressDetails ''rTestnetAddress''\<rparr>,
                    ''response'' \<mapsto> PaymentInformationValue
                       \<lparr>addressDetailType = CryptoAddress,
                        addressDetails = CryptoAddressDetails ''rTestnetAddress''\<rparr>]\<rparr>"
  have out: "fst (getPaymentInfo sample
          (sampleRequest [''application/xrpl-mainnet+json'', ''application/xrpl-testnet+json''])
          emptyResponse (sampleDatabase [xrplTestnetRecord])) = Next ?R"
    by (simp add: sample_found_two)
  from getPaymentInfo_content_type [OF out]
  obtain payId prefs r where
    u: "urlToPayId sample (payIdUrl
        (sampleRequest [''application/xrpl-mainnet+json'', ''application/xrpl-testnet+json''])) =
        Inr payId"
    and p: "mapOrThrow (parseAcceptMediaType sample) (accepts
        (sampleRequest [''application/xrpl-mainnet+json'', ''application/xrpl-testnet+json''])) =
        Inr prefs"
    and m: "getPreferredPaymentInfo sample (rows (sampleDatabase [xrplTestnetRecord]) payId) prefs =
        Some r"
    and h: "headers ?R =
        res_set sample ''Content-Type'' (mediaType (acceptType r)) (headers emptyResponse)"
    by blast
  from u have "payId = ''alice$example.com''"
    by (simp add: sample_url)
  moreover from p have "prefs = [xrplMainnet, xrplTestnet]"
    by (simp add: sample_parse_two)
  ultimately have "r = \<lparr>acceptType = xrplTestnet, paymentInformation = xrplTestnetRecord\<rparr>"
    using m by (simp add: sample_rows sample_match_two)
  then have v: "mediaType (acceptType r) = ''application/xrpl-testnet+json''"
    by (simp add: xrplTestnet_def)
  from h have "[''content-type'' \<mapsto> ''application/xrpl-testnet+json''] =
        res_set sample ''Content-Type'' (mediaType (acceptType r)) (headers emptyResponse)"
    by simp
  with out u p m v show ?thesis by blast
qed

text \<open>
  Claim C2, as amended. For every successful match the shape of the payload is selected
  by the payment network of the record, not by the variant of its details: the type tag
  is \<open>AchAddress\<close> when the network is the string \<open>ACH\<close> and
  \<open>CryptoAddress\<close> for every other network, the details are passed on unchanged, and
  the middleware calls \<open>next()\<close>: no record makes the shaping fail.
\<close>

theorem shape_by_payment_network:
  assumes "urlToPayId c (payIdUrl req) = Inr payId"
    and "accepts req \<noteq> []"
    and "mapOrThrow (parseAcceptMediaType c) (accepts req) = Inr prefs"
    and "getPreferredPaymentInfo c (rows db payId) prefs = Some m"
  shows "\<exists>res'. fst (getPaymentInfo c req res db) = Next res' \<and>
           locals res' ''response'' = Some (PaymentInformationValue
             \<lparr>addressDetailType =
                (if payment_network (paymentInformation m) = ''ACH'' then AchAddress
                 else CryptoAddress),
              addressDetails = details (paymentInformation m)\<rparr>) \<and>
           locals res' ''paymentInformation'' = locals res' ''response''"
proof -
  have "shapeResponse (paymentInformation m) =
      \<lparr>addressDetailType =
         (if payment_network (paymentInformation m) = ''ACH'' then AchAddress
          else CryptoAddress),
       addressDetails = details (paymentInformation m)\<rparr>"
    by (simp add: shapeResponse_def)
  with getPaymentInfo_found [OF assms, of res] show ?thesis
    by simp
qed

theorem shape_by_payment_network_witness:
  "urlToPayId sample (payIdUrl
      (sampleRequest [''application/xrpl-mainnet+json'', ''application/xrpl-testnet+json''])) =
     Inr ''alice$example.com'' \<and>
   accepts (sampleRequest [''application/xrpl-mainnet+json'', ''application/xrpl-testnet+json''])
     \<noteq> [] \<and>
   mapOrThrow (parseAcceptMediaType sample)
     (accepts (sampleRequest [''application/xrpl-mainnet+json'', ''application/xrpl-testnet+json''])) =
     Inr [xrplMainnet, xrplTestnet] \<and>
   getPreferredPaymentInfo sample
      (rows (sampleDatabase [xrplTestnetRecord]) ''alice$example.com'') [xrplMainnet, xrplTestnet] =
     Some \<lparr>acceptType = xrplTestnet, paymentInformation = xrplTestnetRecord\<rparr> \<and>
   (\<exists>res'. fst (getPaymentInfo sample
        (sampleRequest [''application/xrpl-mainnet+json'', ''application/xrpl-testnet+json''])
        emptyResponse (sampleDatabase [xrplTestnetRecord])) = Next res' \<and>
      locals res' ''response'' = Some (PaymentInformationValue
        \<lparr>addressDetailType = CryptoAddress,
         addressDetails = CryptoAddressDetails ''rTestnetAddress''\<rparr>) \<and>
      locals res' ''paymentInformation'' = locals res' ''response'')"
proof -
  have m: "getPreferredPaymentInfo sample
      (rows (sampleDatabase [xrplTestnetRecord]) ''alice$example.com'') [xrplMainnet, xrplTestnet] =
     Some \<lparr>acceptType = xrplTestnet, paymentInformation = xrplTestnetRecord\<rparr>"
    by (simp only: sample_rows sample_match_two)
  from shape_by_payment_network
    [OF sample_url sample_accepts_nonempty sample_parse_two m, of emptyResponse]
  have "\<exists>res'. fst (getPaymentInfo sample
        (sampleRequest [''application/xrpl-mainnet+json'', ''application/xrpl-testnet+json''])
        emptyResponse (sampleDatabase [xrplTestnetRecord])) = Next res' \<and>
      locals res' ''response'' = Some (PaymentInformationValue
        \<lparr>addressDetailType = CryptoAddress,
         addressDetails = CryptoAddressDetails ''rTestnetAddress''\<rparr>) \<and>
      locals res' ''paymentInformation'' = locals res' ''response''"
    by (simp add: xrplTestnetRecord_def)
  with sample_url sample_accepts_nonempty sample_parse_two m show ?thesis
    by blast
qed

text \<open>
  The claim C2 as stated fails: a record of the network xrpl whose details are in the ACH
  variant is rendered with the tag of the crypto-address shape.
\<close>

theorem shape_by_details_kind_counterexample:
  "detailsKind (details mixedRecord) = AchAddress \<and>
   fst (getPaymentInfo sample (sampleRequest [''application/xrpl-testnet+json'']) emptyResponse
          (sampleDatabase [mixedRecord])) =
     Next \<lparr>headers = [''content-type'' \<mapsto> ''application/xrpl-testnet+json''],
           locals = [''payId'' \<mapsto> PayIdValue ''alice$example.com'',
                     ''paymentInformation'' \<mapsto> PaymentInformationValue
                        \<lparr>addressDetailType = CryptoAddress,
                         addressDetails =
                           AchAddressDetails ''account 000123456789, routing 123456789''\<rparr>,
                     ''response'' \<mapsto> PaymentInformationValue
                        \<lparr>addressDetailType = CryptoAddress,
                         addressDetails =
                           AchAddressDetails ''account 000123456789, routing 123456789''\<rparr>]\<rparr>"
proof -
  have m: "getPreferredPaymentInfo sample
      (rows (sampleDatabase [mixedRecord]) ''alice$example.com'') [xrplTestnet] =
     Some \<lparr>acceptType = xrplTestnet, paymentInformation = mixedRecord\<rparr>"
    by (simp only: sample_rows sample_match_mixed)
  from getPaymentInfo_found [OF sample_url sample_accepts_nonempty sample_parse_testnet m, of emptyResponse]
  show ?thesis
    by (simp add: emptyResponse_def shapeResponse_def mixedRecord_def xrplTestnet_def
        sample_set_testnet)
qed

text \<open>
  Claim C10. When the middleware calls \<open>next()\<close>, \<open>res.locals\<close> is the old
  one with \<open>payId\<close> set to the normalised PayID and with \<open>paymentInformation\<close> and
  \<open>response\<close> set to the same shaped payment information; every successful resolution
  ends so. On every failure path (invalid identifier, no Accept token, invalid Accept
  token, nothing found) the middleware does not call \<open>next()\<close>: it ends in
  \<open>handleHttpError\<close>, to which it hands the response it was given, with
  \<open>res.locals\<close> and everything else unmodified.
\<close>

theorem getPaymentInfo_locals_frame:
  fixes c :: Collaborators and req :: Request and res :: Response and db :: Database
  shows
    "(\<forall>res'. fst (getPaymentInfo c req res db) = Next res' \<longrightarrow>
        (\<exists>payId prefs m.
           urlToPayId c (payIdUrl req) = Inr payId \<and>
           mapOrThrow (parseAcceptMediaType c) (accepts req) = Inr prefs \<and>
           getPreferredPaymentInfo c (rows db payId) prefs = Some m \<and>
           locals res' = (locals res)
             (''payId'' \<mapsto> PayIdValue payId,
              ''paymentInformation'' \<mapsto>
                 PaymentInformationValue (shapeResponse (paymentInformation m)),
              ''response'' \<mapsto>
                 PaymentInformationValue (shapeResponse (paymentInformation m))))) \<and>
     ((\<exists>payId prefs m.
         urlToPayId c (payIdUrl req) = Inr payId \<and> accepts req \<noteq> [] \<and>
         mapOrThrow (parseAcceptMediaType c) (accepts req) = Inr prefs \<and>
         getPreferredPaymentInfo c (rows db payId) prefs = Some m) \<longrightarrow>
        (\<exists>res'. fst (getPaymentInfo c req res db) = Next res')) \<and>
     (((\<exists>err. urlToPayId c (payIdUrl req) = Inl err) \<or>
       accepts req = [] \<or>
       (\<exists>e. mapOrThrow (parseAcceptMediaType c) (accepts req) = Inl e) \<or>
       (\<exists>payId prefs.
          urlToPayId c (payIdUrl req) = Inr payId \<and>
          mapOrThrow (parseAcceptMediaType c) (accepts req) = Inr prefs \<and>
          getPreferredPaymentInfo c (rows db payId) prefs = None)) \<longrightarrow>
        (\<exists>code msg err. fst (getPaymentInfo c req res db) = HandleHttpError code msg res err))"
proof (cases rule: getPaymentInfo_cases [where c = c and req = req and db = db])
  case (InvalidIdentifier err)
  from getPaymentInfo_invalid_identifier [OF this, of res db] InvalidIdentifier
  show ?thesis by simp
next
  case (MissingAccept payId)
  from getPaymentInfo_missing [OF this, of res db] MissingAccept
  show ?thesis by simp
next
  case (InvalidAccept payId e)
  from getPaymentInfo_invalid [OF this, of res db] InvalidAccept
  show ?thesis by simp
next
  case (NotFound payId prefs)
  from getPaymentInfo_not_found [OF this, of res] NotFound
  show ?thesis by simp
next
  case (Found payId prefs m)
  from getPaymentInfo_found [OF this, of res] Found
  show ?thesis by auto
qed

theorem getPaymentInfo_locals_frame_witness:
  "fst (getPaymentInfo sample
          (sampleRequest [''application/xrpl-mainnet+json'', ''application/xrpl-testnet+json''])
          emptyResponse (sampleDatabase [xrplTestnetRecord])) =
     Next \<lparr>headers = [''content-type'' \<mapsto> ''application/xrpl-testnet+json''],
          locals = [''payId'' \<mapsto> PayIdValue ''alice$example.com'',
                    ''paymentInformation'' \<mapsto> PaymentInformationValue
                       \<lparr>addressDetailType = CryptoAddress,
                        addressDetails = CryptoAddressDetails ''rTestnetAddress''\<rparr>,
                    ''response'' \<mapsto> PaymentInformationValue
                       \<lparr>addressDetailType = CryptoAddress,
                        addressDetails = CryptoAddressDetails ''rTestnetAddress''\<rparr>]\<rparr> \<and>
   (\<exists>payId prefs m.
      urlToPayId sample (payIdUrl
        (sampleRequest [''application/xrpl-mainnet+json'', ''application/xrpl-testnet+json''])) =
        Inr payId \<and>
      mapOrThrow (parseAcceptMediaType sample) (accepts
        (sampleRequest [''application/xrpl-mainnet+json'', ''application/xrpl-testnet+json''])) =
        Inr prefs \<and>
      getPreferredPaymentInfo sample (rows (sampleDatabase [xrplTestnetRecord]) payId) prefs =
        Some m \<and>
      [''payId'' \<mapsto> PayIdValue ''alice$example.com'',
       ''paymentInformation'' \<mapsto> PaymentInformationValue
          \<lparr>addressDetailType = CryptoAddress,
           addressDetails = CryptoAddressDetails ''rTestnetAddress''\<rparr>,
       ''response'' \<mapsto> PaymentInformationValue
          \<lparr>addressDetailType = CryptoAddress,
           addressDetails = CryptoAddressDetails ''rTestnetAddress''\<rparr>] =
      (locals emptyResponse)
        (''payId'' \<mapsto> PayIdValue payId,
         ''paymentInformation'' \<mapsto>
            PaymentInformationValue (shapeResponse (paymentInformation m)),
         ''response'' \<mapsto>
            PaymentInformationValue (shapeResponse (paymentInformation m)))) \<and>
   accepts (sampleRequest []) = [] \<and>
   (\<exists>code msg err.
      fst (getPaymentInfo sample (sampleRequest []) emptyResponse
             (sampleDatabase [xrplTestnetRecord])) =
        HandleHttpError code msg emptyResponse err)"
proof -
  let ?R = "\<lparr>headers = [''content-type'' \<mapsto> ''application/xrpl-testnet+json''],
          locals = [''payId'' \<mapsto> PayIdValue ''alice$example.com'',
                    ''paymentInformation'' \<mapsto> PaymentInformationValue
                       \<lparr>addressDetailType = CryptoAddress,
                        addressDetails = CryptoAddressDetails ''rTestnetAddress''\<rparr>,
                    ''response'' \<mapsto> PaymentInformationValue
                       \<lparr>addressDetailType = CryptoAddress,
                        addressDetails = CryptoAddressDetails ''rTestnetAddress''\<rparr>]\<rparr>"
  have out: "fst (getPaymentInfo sample
          (sampleRequest [''application/xrpl-mainnet+json'', ''application/xrpl-testnet+json''])
          emptyResponse (sampleDatabase [xrplTestnetRecord])) = Next ?R"
    by (simp add: sample_found_two)
  have a: "accepts (sampleRequest []) = []"
    by (simp add: sampleRequest_def)
  note frame = getPaymentInfo_locals_frame [of sample _ emptyResponse "sampleDatabase [xrplTestnetRecord]"]
  from frame [of "sampleRequest [''application/xrpl-mainnet+json'', ''application/xrpl-testnet+json'']"]
    out
  have found: "\<exists>payId prefs m.
      urlToPayId sample (payIdUrl
        (sampleRequest [''application/xrpl-mainnet+json'', ''application/xrpl-testnet+json''])) =
        Inr payId \<and>
      mapOrThrow (parseAcceptMediaType sample) (accepts
        (sampleRequest [''application/xrpl-mainnet+json'', ''application/xrpl-testnet+json''])) =
        Inr prefs \<and>
      getPreferredPaymentInfo sample (rows (sampleDatabase [xrplTestnetRecord]) payId) prefs =
        Some m \<and>
      locals ?R =
      (locals emptyResponse)
        (''payId'' \<mapsto> PayIdValue payId,
         ''paymentInformation'' \<mapsto>
            PaymentInformationValue (shapeResponse (paymentInformation m)),
         ''response'' \<mapsto>
            PaymentInformationValue (shapeResponse (paymentInformation m)))"
    by blast
  from frame [of "sampleRequest []"] a
  have failed: "\<exists>code msg err.
      fst (getPaymentInfo sample (sampleRequest []) emptyResponse
             (sampleDatabase [xrplTestnetRecord])) =
        HandleHttpError code msg emptyResponse err"
    by blast
  from out found a failed show ?thesis by simp
qed

subsection \<open>The record matcher of the specification\<close>

text \<open>
  Claim C3. With the matcher of section 4.3, preference order dominates record order:
  when no preference ranked higher than \<open>p\<close> matches any record of the identifier and
  \<open>r\<close> is the first record that \<open>p\<close> matches, the result is \<open>p\<close> with
  \<open>r\<close>, whatever the lower-ranked preferences are; the higher-ranked preferences
  without a match do not make the result \<open>undefined\<close>.
\<close>

theorem preference_order_dominates:
  assumes "\<forall>q\<in>set higher. \<forall>r\<in>set (rows db payId). \<not> matchesPreference q r"
    and "find (matchesPreference p) (rows db payId) = Some r"
  shows "fst (getPaymentInfoForAcceptTypes
                (c\<lparr>getPreferredPaymentInfo := getPreferredPaymentInfo_spec\<rparr>)
                payId (higher @ p # lower) db) =
           Some \<lparr>acceptType = p, paymentInformation = r\<rparr>"
  using assms
  by (simp add: getPaymentInfoForAcceptTypes_def getAllPaymentInfoFromDatabase_def
      spec_matcher_skip)

theorem preference_order_dominates_witness:
  "\<not> matchesPreference xrplMainnet xrplTestnetRecord \<and>
   find (matchesPreference (xrplTestnet\<lparr>quality := 1 / 10\<rparr>))
     (rows (sampleDatabase [xrplTestnetRecord]) ''alice$example.com'') = Some xrplTestnetRecord \<and>
   fst (getPaymentInfoForAcceptTypes (sample\<lparr>getPreferredPaymentInfo := getPreferredPaymentInfo_spec\<rparr>)
          ''alice$example.com'' ([xrplMainnet] @ xrplTestnet\<lparr>quality := 1 / 10\<rparr> # [])
          (sampleDatabase [xrplTestnetRecord])) =
     Some \<lparr>acceptType = xrplTestnet\<lparr>quality := 1 / 10\<rparr>, paymentInformation = xrplTestnetRecord\<rparr>"
proof -
  have n: "\<not> matchesPreference xrplMainnet xrplTestnetRecord"
    by (simp add: matchesPreference_def xrplMainnet_def xrplTestnetRecord_def)
  then have h: "\<forall>q\<in>set [xrplMainnet].
      \<forall>r\<in>set (rows (sampleDatabase [xrplTestnetRecord]) ''alice$example.com'').
        \<not> matchesPreference q r"
    by (simp add: sample_rows)
  have f: "find (matchesPreference (xrplTestnet\<lparr>quality := 1 / 10\<rparr>))
     (rows (sampleDatabase [xrplTestnetRecord]) ''alice$example.com'') = Some xrplTestnetRecord"
    by (simp add: sample_rows matchesPreference_def xrplTestnet_def xrplTestnetRecord_def)
  from preference_order_dominates [OF h f, of sample "[]"] n f
  show ?thesis by blast
qed

text \<open>
  Claim C7. With the matcher of section 4.3, a result of
  \<open>getPaymentInfoForAcceptTypes\<close> pairs an accepted type and a record that agree: the
  payment networks are equal, and the environment of the accepted type is unset or equal
  to the environment of the record. The accepted type is one of those supplied and the
  record is one of the identifier's.
\<close>

theorem match_agrees:
  assumes "getPaymentInfoForAcceptTypes
             (c\<lparr>getPreferredPaymentInfo := getPreferredPaymentInfo_spec\<rparr>)
             payId sortedAcceptTypes db = (Some m, db')"
  shows "paymentNetwork (acceptType m) = payment_network (paymentInformation m) \<and>
         (AcceptMediaType.environment (acceptType m) = None \<or>
          AcceptMediaType.environment (acceptType m) =
            AddressInformation.environment (paymentInformation m)) \<and>
         acceptType m \<in> set sortedAcceptTypes \<and>
         paymentInformation m \<in> set (rows db payId)"
proof -
  from assms have "getPreferredPaymentInfo_spec (rows db payId) sortedAcceptTypes = Some m"
    by (simp add: getPaymentInfoForAcceptTypes_def getAllPaymentInfoFromDatabase_def
        split: if_splits)
  from spec_matcher_Some [OF this]
  have mem: "acceptType m \<in> set sortedAcceptTypes"
    and f: "find (matchesPreference (acceptType m)) (rows db payId) = Some (paymentInformation m)"
    by simp_all
  from find_Some_matches [OF f]
  have "matchesPreference (acceptType m) (paymentInformation m)"
    and "paymentInformation m \<in> set (rows db payId)" by simp_all
  with mem show ?thesis
    by (auto simp: matchesPreference_def)
qed

theorem match_agrees_witness:
  "getPaymentInfoForAcceptTypes (sample\<lparr>getPreferredPaymentInfo := getPreferredPaymentInfo_spec\<rparr>)
      ''alice$example.com'' [xrplMainnet, achAny] (sampleDatabase [xrplTestnetRecord, achRecord]) =
     (Some \<lparr>acceptType = achAny, paymentInformation = achRecord\<rparr>,
      (sampleDatabase [xrplTestnetRecord, achRecord])\<lparr>lookups := [''alice$example.com'']\<rparr>) \<and>
   paymentNetwork achAny = payment_network achRecord \<and>
   AcceptMediaType.environment achAny = None"
proof -
  have e: "getPaymentInfoForAcceptTypes (sample\<lparr>getPreferredPaymentInfo := getPreferredPaymentInfo_spec\<rparr>)
      ''alice$example.com'' [xrplMainnet, achAny] (sampleDatabase [xrplTestnetRecord, achRecord]) =
     (Some \<lparr>acceptType = achAny, paymentInformation = achRecord\<rparr>,
      (sampleDatabase [xrplTestnetRecord, achRecord])\<lparr>lookups := [''alice$example.com'']\<rparr>)"
    by (simp add: getPaymentInfoForAcceptTypes_def getAllPaymentInfoFromDatabase_def
        sampleDatabase_def matchesPreference_def xrplMainnet_def achAny_def
        xrplTestnetRecord_def achRecord_def)
  from match_agrees [OF e] have
    "paymentNetwork achAny = payment_network achRecord"
    by simp
  moreover have "AcceptMediaType.environment achAny = None"
    by (simp add: achAny_def)
  ultimately show ?thesis using e by blast
qed

end
